theory Spec2Isabelle
  imports Complex_Main
begin

section \<open>Shared types (packages/shared)\<close>

text \<open>
  \<^verbatim>\<open>GameChoice = 'rock' | 'paper' | 'scissors'\<close> is a union of string literals; the
  constructors carry the literals' names and \<open>choice_text\<close> gives the string a template
  literal interpolates.
\<close>

datatype GameChoice = rock | paper | scissors

datatype Winner = player | ai | tie

datatype Status = waiting | playing | finished

fun choice_text :: "GameChoice \<Rightarrow> string" where
  "choice_text rock = ''rock''"
| "choice_text paper = ''paper''"
| "choice_text scissors = ''scissors''"

text \<open>
  JavaScript numbers are IEEE doubles. Counts, lengths and timestamps are modelled as
  \<open>nat\<close>, rounded values as \<open>int\<close>, and fractional values (scores, probabilities,
  entropy) as \<open>real\<close> with exact arithmetic.
\<close>

record GameMove =
  playerId :: string
  choice :: GameChoice
  timestamp :: nat
  aiPrediction :: GameChoice
  aiChoice :: GameChoice
  aiConfidence :: int
  correct :: bool
  winner :: Winner

text \<open>A \<^verbatim>\<open>Record<GameChoice, number>\<close> has exactly the three keys, so it is a total function.\<close>

type_synonym counts = "GameChoice \<Rightarrow> nat"

record PlayerPattern =
  frequencies :: counts
  transitions :: "GameChoice \<Rightarrow> counts"
  streaks :: counts
  totalMoves :: nat
  lastMoves :: "GameChoice list"
  winRate :: real
  randomnessScore :: int

text \<open>The field \<open>playerId\<close> of \<^verbatim>\<open>GameState\<close> is suffixed: \<open>GameMove\<close> has one too.\<close>

record GameState =
  gameId :: string
  playerId_g :: string
  username :: string
  playerScore :: nat
  aiScore :: nat
  moves :: "GameMove list"
  currentStreak :: nat
  gameStartTime :: nat
  status :: Status

record AIAnalysis =
  prediction :: GameChoice
  confidence :: int
  reasoning :: string
  patternType :: string
  suggestion :: "string option"

definition GAME_CHOICES :: "GameChoice list" where
  "GAME_CHOICES = [rock, paper, scissors]"

text \<open>\<^verbatim>\<open>GAME_RULES\<close>: each key beats its value. The object literal keeps insertion order.\<close>

definition GAME_RULES_entries :: "(GameChoice \<times> GameChoice) list" where
  "GAME_RULES_entries = [(rock, scissors), (paper, rock), (scissors, paper)]"

fun GAME_RULES :: "GameChoice \<Rightarrow> GameChoice" where
  "GAME_RULES rock = scissors"
| "GAME_RULES paper = rock"
| "GAME_RULES scissors = paper"

definition getCounterMove :: "GameChoice \<Rightarrow> GameChoice" where
  "getCounterMove c =
     (case find (\<lambda>(_, beats). beats = c) GAME_RULES_entries of
        Some counter \<Rightarrow> fst counter
      | None \<Rightarrow> rock)"

definition determineWinner :: "GameChoice \<Rightarrow> GameChoice \<Rightarrow> Winner" where
  "determineWinner playerChoice aiChoice' =
     (if playerChoice = aiChoice' then tie
      else if GAME_RULES playerChoice = aiChoice' then player
      else ai)"

section \<open>JavaScript built-ins used by the analyzer\<close>

text \<open>\<^verbatim>\<open>Math.round\<close> rounds to the nearest integer, a half towards plus infinity.\<close>

definition Math_round :: "real \<Rightarrow> int" where
  "Math_round x = \<lfloor>x + 1 / 2\<rfloor>"

text \<open>\<^verbatim>\<open>Object.values\<close> and \<^verbatim>\<open>Object.entries\<close> of a record written rock, paper, scissors.\<close>

definition Object_values :: "counts \<Rightarrow> nat list" where
  "Object_values r = [r rock, r paper, r scissors]"

definition Object_entries :: "counts \<Rightarrow> (GameChoice \<times> nat) list" where
  "Object_entries r = [(rock, r rock), (paper, r paper), (scissors, r scissors)]"

text \<open>
  \<^verbatim>\<open>Math.max(...xs)\<close> and \<^verbatim>\<open>Math.min(...xs)\<close>. On no arguments JavaScript answers
  \<open>-Infinity\<close> and \<open>Infinity\<close>; the analyzer only spreads the three values of a record.
\<close>

fun Math_max :: "nat list \<Rightarrow> nat" where
  "Math_max [] = 0"
| "Math_max (x # xs) = fold max xs x"

fun Math_min :: "nat list \<Rightarrow> nat" where
  "Math_min [] = 0"
| "Math_min (x # xs) = fold min xs x"

text \<open>\<^verbatim>\<open>xs.slice(-n)\<close>: the last \<open>n\<close> entries, all of them when there are fewer.\<close>

definition slice_last :: "nat \<Rightarrow> 'a list \<Rightarrow> 'a list" where
  "slice_last n xs = drop (length xs - n) xs"

fun join :: "string \<Rightarrow> string list \<Rightarrow> string" where
  "join sep [] = []"
| "join sep [x] = x"
| "join sep (x # y # ys) = x @ sep @ join sep (y # ys)"

definition digit_char :: "nat \<Rightarrow> char" where
  "digit_char d = char_of (48 + d)"

text \<open>
  Decimal text of a non-negative integer, as a template literal prints it (JavaScript turns
  to exponent notation from \<open>10^21\<close> on, beyond any array length).
\<close>

fun nat_text :: "nat \<Rightarrow> string" where
  "nat_text n = (if n < 10 then [digit_char n] else nat_text (n div 10) @ [digit_char (n mod 10)])"

declare nat_text.simps [simp del]

definition int_text :: "int \<Rightarrow> string" where
  "int_text i = (if i < 0 then CHR ''-'' # nat_text (nat (- i)) else nat_text (nat i))"

definition is_space :: "char \<Rightarrow> bool" where
  "is_space c = (c \<in> set [CHR '' '', CHR 0x09, CHR 0x0A, CHR 0x0B, CHR 0x0C, CHR 0x0D])"

text \<open>\<^verbatim>\<open>String.prototype.trim\<close>, on the ASCII white space and line terminators.\<close>

definition trim :: "string \<Rightarrow> string" where
  "trim s = rev (dropWhile is_space (rev (dropWhile is_space s)))"

text \<open>
  \<^verbatim>\<open>Buffer.from(key).toString('base64')\<close>: the bytes of the string in the standard
  base64 alphabet, three bytes to four characters, padded with \<open>=\<close>.
\<close>

definition b64_alphabet :: string where
  "b64_alphabet = ''ABCDEFGHIJKLMNOPQRSTUVWXYZabcdefghijklmnopqrstuvwxyz0123456789+/''"

definition b64_char :: "nat \<Rightarrow> char" where
  "b64_char n = b64_alphabet ! (n mod 64)"

fun base64 :: "nat list \<Rightarrow> string" where
  "base64 [] = []"
| "base64 [a] = [b64_char (a div 4), b64_char ((a mod 4) * 16), CHR ''='', CHR ''='']"
| "base64 [a, b] =
     [b64_char (a div 4), b64_char ((a mod 4) * 16 + b div 16), b64_char ((b mod 16) * 4), CHR ''='']"
| "base64 (a # b # c # rest) =
     [b64_char (a div 4), b64_char ((a mod 4) * 16 + b div 16),
      b64_char ((b mod 16) * 4 + c div 64), b64_char (c mod 64)] @ base64 rest"

definition Buffer_base64 :: "string \<Rightarrow> string" where
  "Buffer_base64 s = base64 (map of_char s)"

section \<open>PatternAnalyzer (apps/server/src/ai/analyzer.ts)\<close>

datatype error = TypeError | Error string

text \<open>
  \<^verbatim>\<open>apiKey || process.env.GEMINI_API_KEY\<close>: an absent or empty string is falsy. The
  model handle the method returns is represented by the key it was built with.
\<close>

definition truthy :: "string option \<Rightarrow> bool" where
  "truthy k = (case k of None \<Rightarrow> False | Some s \<Rightarrow> s \<noteq> [])"

definition getGeminiModel :: "string option \<Rightarrow> string option \<Rightarrow> error + string" where
  "getGeminiModel apiKey env =
     (let key = (if truthy apiKey then apiKey else env)
      in if \<not> truthy key then Inl (Error ''No Gemini API key provided'')
         else Inr (the key))"

definition calculateFrequencies :: "GameChoice list \<Rightarrow> counts" where
  "calculateFrequencies ms = fold (\<lambda>move fr. fr(move := fr move + 1)) ms (\<lambda>_. 0)"

text \<open>The loop over \<open>i < moves.length - 1\<close> visits every adjacent pair, left to right.\<close>

fun transitions_loop :: "GameChoice list \<Rightarrow> (GameChoice \<Rightarrow> counts) \<Rightarrow> (GameChoice \<Rightarrow> counts)" where
  "transitions_loop (a # b # rest) t =
     transitions_loop (b # rest) (t(a := (t a)(b := t a b + 1)))"
| "transitions_loop _ t = t"

definition calculateTransitions :: "GameChoice list \<Rightarrow> (GameChoice \<Rightarrow> counts)" where
  "calculateTransitions ms = transitions_loop ms (\<lambda>_ _. 0)"

definition entropy_step :: "PlayerPattern \<Rightarrow> GameChoice \<Rightarrow> real \<Rightarrow> real" where
  "entropy_step pattern c entropy =
     (let probability = real (frequencies pattern c) / real (totalMoves pattern)
      in if probability > 0 then entropy - probability * log 2 probability else entropy)"

definition calculateRandomness :: "PlayerPattern \<Rightarrow> int" where
  "calculateRandomness pattern =
     (if totalMoves pattern = 0 then 100
      else
        let entropy = fold (entropy_step pattern) GAME_CHOICES 0;
            maxEntropy = log 2 3
        in Math_round ((entropy / maxEntropy) * 100))"

text \<open>
  The streak loop of \<open>analyzePattern\<close>: the list starts at \<open>choices[i - 1]\<close>, and the
  result is the pair of \<open>currentStreak\<close> and \<open>streaks\<close> when the loop ends.
\<close>

fun streak_loop :: "GameChoice list \<Rightarrow> nat \<Rightarrow> counts \<Rightarrow> nat \<times> counts" where
  "streak_loop (prev # cur # rest) cs st =
     (if cur = prev then streak_loop (cur # rest) (cs + 1) st
      else streak_loop (cur # rest) 1 (if cs > st prev then st(prev := cs) else st))"
| "streak_loop _ cs st = (cs, st)"

definition analyzePattern :: "GameMove list \<Rightarrow> PlayerPattern" where
  "analyzePattern ms =
     (let choices = map choice ms;
          (cs, st) = streak_loop choices 1 (\<lambda>_. 0);
          st' = (if choices \<noteq> [] \<and> cs > st (last choices) then st(last choices := cs) else st);
          pattern = \<lparr>frequencies = calculateFrequencies choices,
                     transitions = calculateTransitions choices,
                     streaks = st',
                     totalMoves = length ms,
                     lastMoves = slice_last 10 choices,
                     winRate = real (length (filter (\<lambda>m. \<not> correct m) ms)) / real (max (length ms) 1),
                     randomnessScore = 0\<rparr>
      in pattern\<lparr>randomnessScore := calculateRandomness pattern\<rparr>)"

subsection \<open>predictNextMove\<close>

text \<open>
  A candidate pushed on \<open>predictions\<close>: \<^verbatim>\<open>{ choice, score, type }\<close>. Its field
  \<open>choice\<close> is suffixed, since \<open>GameMove\<close> has one too.
\<close>

record Prediction =
  choice_c :: GameChoice
  score :: real
  type :: string

definition cold_start :: AIAnalysis where
  "cold_start =
     \<lparr>prediction = rock, confidence = 35,
      reasoning = ''Most players start with rock. It's a classic opening move!'',
      patternType = ''psychological'', suggestion = None\<rparr>"

text \<open>1. Frequency-based prediction.\<close>

definition favoriteChoice :: "PlayerPattern \<Rightarrow> GameChoice" where
  "favoriteChoice pattern =
     (let maxFreq = Math_max (Object_values (frequencies pattern))
      in case find (\<lambda>(_, freq). freq = maxFreq) (Object_entries (frequencies pattern)) of
           Some e \<Rightarrow> fst e
         | None \<Rightarrow> rock)"

definition frequency_strategy :: "PlayerPattern \<Rightarrow> Prediction list" where
  "frequency_strategy pattern =
     [\<lparr>choice_c = favoriteChoice pattern, score = 0.3, type = ''frequency''\<rparr>]"

text \<open>2. Transition-based prediction; the pair is \<open>(maxTransition, transitionPrediction)\<close>.\<close>

definition transition_step :: "counts \<Rightarrow> nat \<Rightarrow> GameChoice \<Rightarrow> real \<times> GameChoice \<Rightarrow> real \<times> GameChoice" where
  "transition_step row totalTransitions c acc =
     (let prob = real (row c) / real totalTransitions
      in if prob > fst acc then (prob, c) else acc)"

definition transition_strategy :: "PlayerPattern \<Rightarrow> GameChoice \<Rightarrow> Prediction list" where
  "transition_strategy pattern lastMove =
     (let row = transitions pattern lastMove;
          totalTransitions = fold (\<lambda>b a. a + b) (Object_values row) 0
      in if totalTransitions > 0 then
           let (maxTransition, transitionPrediction) =
                 fold (transition_step row totalTransitions) GAME_CHOICES (0, rock)
           in [\<lparr>choice_c = transitionPrediction, score = maxTransition * 0.5, type = ''sequential''\<rparr>]
         else [])"

text \<open>3. Anti-pattern prediction.\<close>

definition leastUsed :: "PlayerPattern \<Rightarrow> GameChoice" where
  "leastUsed pattern =
     (let minFreq = Math_min (Object_values (frequencies pattern))
      in case find (\<lambda>(_, freq). freq = minFreq) (Object_entries (frequencies pattern)) of
           Some e \<Rightarrow> fst e
         | None \<Rightarrow> scissors)"

definition meta_strategy :: "PlayerPattern \<Rightarrow> Prediction list" where
  "meta_strategy pattern =
     (if randomnessScore pattern > 70
      then [\<lparr>choice_c = leastUsed pattern, score = 0.4, type = ''meta''\<rparr>]
      else [])"

text \<open>
  4. Win-stay/lose-shift. \<open>rnd\<close> is the value \<^verbatim>\<open>Math.random()\<close> returns on this call, a
  number in \<open>[0, 1)\<close>.
\<close>

definition win_stay_lose_shift :: "PlayerPattern \<Rightarrow> real \<Rightarrow> Prediction list" where
  "win_stay_lose_shift pattern rnd =
     (let lm = lastMoves pattern
      in if length lm \<ge> 2 then
           let lastPlayerMove = lm ! (length lm - 1);
               secondLastMove = lm ! (length lm - 2)
           in if lastPlayerMove = secondLastMove then
                let alternatives = filter (\<lambda>c. c \<noteq> lastPlayerMove) GAME_CHOICES;
                    switchPrediction = alternatives ! nat \<lfloor>rnd * real (length alternatives)\<rfloor>
                in [\<lparr>choice_c = switchPrediction, score = 0.35, type = ''psychological''\<rparr>]
              else []
         else [])"

text \<open>5. Rotation pattern detection.\<close>

definition rotation_strategy :: "PlayerPattern \<Rightarrow> Prediction list" where
  "rotation_strategy pattern =
     (if length (lastMoves pattern) \<ge> 3 then
        let sequence = slice_last 3 (lastMoves pattern)
        in if sequence ! 0 = rock \<and> sequence ! 1 = paper \<and> sequence ! 2 = scissors
           then [\<lparr>choice_c = rock, score = 0.6, type = ''sequential''\<rparr>]
           else if sequence ! 0 = scissors \<and> sequence ! 1 = rock \<and> sequence ! 2 = paper
           then [\<lparr>choice_c = scissors, score = 0.6, type = ''sequential''\<rparr>]
           else []
      else [])"

text \<open>The array \<open>predictions\<close> after the five strategies, in the order they push.\<close>

definition predictions :: "PlayerPattern \<Rightarrow> real \<Rightarrow> Prediction list" where
  "predictions pattern rnd =
     frequency_strategy pattern
     @ transition_strategy pattern (last (lastMoves pattern))
     @ meta_strategy pattern
     @ win_stay_lose_shift pattern rnd
     @ rotation_strategy pattern"

definition default_prediction :: Prediction where
  "default_prediction = \<lparr>choice_c = rock, score = 0.33, type = ''frequency''\<rparr>"

text \<open>Choose the prediction with highest score: start at the first, replace on a greater score.\<close>

definition choose_best :: "Prediction list \<Rightarrow> Prediction" where
  "choose_best ps =
     fold (\<lambda>pred bestPrediction. if score pred > score bestPrediction then pred else bestPrediction)
       ps (case ps of [] \<Rightarrow> default_prediction | p # _ \<Rightarrow> p)"

definition confidence_of :: "Prediction \<Rightarrow> int" where
  "confidence_of bestPrediction = min (Math_round (score bestPrediction * 100)) 85"

definition nl :: string where
  "nl = [CHR 0x0A]"

definition build_prompt :: "PlayerPattern \<Rightarrow> string \<Rightarrow> GameChoice \<Rightarrow> string" where
  "build_prompt pattern pt pr =
     nl @ ''        Analyze this Rock-Paper-Scissors game pattern.'' @ nl
     @ ''        '' @ nl
     @ ''        Player's last 10 moves: '' @ join '', '' (map choice_text (lastMoves pattern)) @ nl
     @ ''        Frequency: Rock='' @ nat_text (frequencies pattern rock)
     @ '', Paper='' @ nat_text (frequencies pattern paper)
     @ '', Scissors='' @ nat_text (frequencies pattern scissors) @ nl
     @ ''        Randomness: '' @ int_text (randomnessScore pattern) @ ''%'' @ nl
     @ ''        Pattern type detected: '' @ pt @ nl
     @ ''        '' @ nl
     @ ''        We predict they'll play '' @ choice_text pr @ '' next.'' @ nl
     @ ''        '' @ nl
     @ ''        Provide a brief, engaging explanation (max 40 words) for why they might choose ''
     @ choice_text pr @ ''.'' @ nl
     @ ''        Consider RPS psychology: rock=aggressive, paper=defensive, scissors=clever.'' @ nl
     @ ''        Be conversational and slightly playful.'' @ nl
     @ ''      ''"

definition fallbackReasons :: "GameChoice \<Rightarrow> GameChoice \<Rightarrow> (string \<times> string) list" where
  "fallbackReasons pr lastMove =
     [(''frequency'', ''You love playing '' @ choice_text pr @ '' - it's your go-to move!''),
      (''sequential'', ''Following your pattern, '' @ choice_text pr @ '' comes next.''),
      (''meta'', ''You're being unpredictable, but I think '' @ choice_text pr @ '' is due!''),
      (''psychological'',
         ''After '' @ choice_text lastMove @ '', players often switch to '' @ choice_text pr @ ''.''),
      (''complex'', ''Your complex pattern points to '' @ choice_text pr @ ''.'')]"

text \<open>\<^verbatim>\<open>fallbackReasons[patternType] || `I predict ${prediction}!`\<close>\<close>

definition fallback_reasoning :: "string \<Rightarrow> GameChoice \<Rightarrow> GameChoice \<Rightarrow> string" where
  "fallback_reasoning pt pr lastMove =
     (case map_of (fallbackReasons pr lastMove) pt of
        Some r \<Rightarrow> if r \<noteq> [] then r else ''I predict '' @ choice_text pr @ ''!''
      | None \<Rightarrow> ''I predict '' @ choice_text pr @ ''!'')"

text \<open>
  The body of the \<^verbatim>\<open>try\<close> block: \<open>Inl\<close> when it throws, the reasoning it returns
  otherwise. \<open>generateContent key prompt\<close> is the outcome of
  \<^verbatim>\<open>model.generateContent(prompt)\<close> and \<^verbatim>\<open>result.response.text()\<close> on the model
  built with \<open>key\<close>: the text, or whatever the service throws.
\<close>

definition try_rationale ::
  "PlayerPattern \<Rightarrow> Prediction \<Rightarrow> string option \<Rightarrow> string option \<Rightarrow>
   (string \<Rightarrow> string \<Rightarrow> error + string) \<Rightarrow> error + string" where
  "try_rationale pattern bestPrediction apiKey env generateContent =
     (let pr = choice_c bestPrediction; pt = type bestPrediction
      in case getGeminiModel apiKey env of
           Inl e \<Rightarrow> Inl e
         | Inr key \<Rightarrow>
             (case generateContent key (build_prompt pattern pt pr) of
                Inl e \<Rightarrow> Inl e
              | Inr text \<Rightarrow>
                  (let r = trim text
                   in Inr (if r \<noteq> [] then r
                           else ''I sense you'll play '' @ choice_text pr @ '' next!''))))"

text \<open>
  The \<^verbatim>\<open>try\<close> with its \<^verbatim>\<open>catch\<close>, which answers the fallback reasoning. The
  \<^verbatim>\<open>console.error\<close> of the handler is not modelled.
\<close>

definition rationale ::
  "PlayerPattern \<Rightarrow> Prediction \<Rightarrow> GameChoice \<Rightarrow> string option \<Rightarrow> string option \<Rightarrow>
   (string \<Rightarrow> string \<Rightarrow> error + string) \<Rightarrow> string" where
  "rationale pattern bestPrediction lastMove apiKey env generateContent =
     (case try_rationale pattern bestPrediction apiKey env generateContent of
        Inl e \<Rightarrow> fallback_reasoning (type bestPrediction) (choice_c bestPrediction) lastMove
      | Inr r \<Rightarrow> r)"

text \<open>
  With \<open>totalMoves \<ge> 2\<close> and an empty \<open>lastMoves\<close>, \<open>lastMove\<close> is \<open>undefined\<close>, so is
  \<^verbatim>\<open>pattern.transitions[lastMove]\<close>, and \<^verbatim>\<open>Object.values\<close> of it throws a TypeError.
\<close>

definition predictNextMove ::
  "PlayerPattern \<Rightarrow> real \<Rightarrow> string option \<Rightarrow> string option \<Rightarrow>
   (string \<Rightarrow> string \<Rightarrow> error + string) \<Rightarrow> error + AIAnalysis" where
  "predictNextMove pattern rnd apiKey env generateContent =
     (if totalMoves pattern < 2 then Inr cold_start
      else if lastMoves pattern = [] then Inl TypeError
      else
        let lastMove = last (lastMoves pattern);
            bestPrediction = choose_best (predictions pattern rnd)
        in Inr \<lparr>prediction = choice_c bestPrediction,
                 confidence = confidence_of bestPrediction,
                 reasoning = rationale pattern bestPrediction lastMove apiKey env generateContent,
                 patternType = type bestPrediction,
                 suggestion = None\<rparr>)"

definition generatePatternHash :: "PlayerPattern \<Rightarrow> string" where
  "generatePatternHash pattern =
     (let key = join [] (map choice_text (slice_last 5 (lastMoves pattern)))
                @ ''-'' @ nat_text (totalMoves pattern)
      in Buffer_base64 key)"

section \<open>GameManager (apps/server/src/index.ts) and the Redis operations\<close>

text \<open>
  What the Redis operations write: JSON documents, streams and counters, each by key. A
  failing Redis command is not modelled.
\<close>

record Redis =
  json :: "string \<rightharpoonup> GameState"
  streams :: "string \<Rightarrow> GameMove list"
  counters :: "string \<Rightarrow> int"

definition GAME_KEY :: "string \<Rightarrow> string" where
  "GAME_KEY gid = ''game:'' @ gid"

definition MOVES_KEY :: "string \<Rightarrow> string" where
  "MOVES_KEY gid = ''moves:'' @ gid"

definition saveGameState :: "Redis \<Rightarrow> GameState \<Rightarrow> Redis" where
  "saveGameState r g = r\<lparr>json := (json r)(GAME_KEY (gameId g) \<mapsto> g)\<rparr>"

definition getGameState :: "Redis \<Rightarrow> string \<Rightarrow> GameState option" where
  "getGameState r gid = json r (GAME_KEY gid)"

definition addMove :: "Redis \<Rightarrow> string \<Rightarrow> GameMove \<Rightarrow> Redis" where
  "addMove r gid m = r\<lparr>streams := (streams r)(MOVES_KEY gid := streams r (MOVES_KEY gid) @ [m])\<rparr>"

definition incrementMetric :: "Redis \<Rightarrow> string \<Rightarrow> int \<Rightarrow> Redis" where
  "incrementMetric r metric v =
     r\<lparr>counters := (counters r)(''metric:'' @ metric := counters r (''metric:'' @ metric) + v)\<rparr>"

record GameManager =
  games :: "string \<rightharpoonup> GameState"
  playerApiKeys :: "string \<rightharpoonup> string"
  redis :: Redis

definition getGame :: "GameManager \<Rightarrow> string \<Rightarrow> GameState option \<times> GameManager" where
  "getGame gm gid =
     (case games gm gid of
        Some g \<Rightarrow> (Some g, gm)
      | None \<Rightarrow>
          (case getGameState (redis gm) gid of
             Some g \<Rightarrow> (Some g, gm\<lparr>games := (games gm)(gid \<mapsto> g)\<rparr>)
           | None \<Rightarrow> (None, gm)))"

text \<open>\<open>now\<close> is the value of \<^verbatim>\<open>Date.now()\<close>. The game object is updated in place, in the map.\<close>

definition processMove ::
  "GameManager \<Rightarrow> string \<Rightarrow> string \<Rightarrow> GameChoice \<Rightarrow> GameChoice \<Rightarrow> int \<Rightarrow> nat \<Rightarrow>
   (error + GameMove) \<times> GameManager" where
  "processMove gm gid pid ch aiPred aiConf now =
     (case getGame gm gid of
        (None, gm1) \<Rightarrow> (Inl (Error ''Game not found or not active''), gm1)
      | (Some game, gm1) \<Rightarrow>
          if status game \<noteq> playing then (Inl (Error ''Game not found or not active''), gm1)
          else if playerId_g game \<noteq> pid then (Inl (Error ''Player not authorized for this game''), gm1)
          else
            let isCorrect = (aiPred = ch);
                aiCh = getCounterMove aiPred;
                w = determineWinner ch aiCh;
                move = \<lparr>playerId = pid, choice = ch, timestamp = now, aiPrediction = aiPred,
                        aiChoice = aiCh, aiConfidence = aiConf, correct = isCorrect, winner = w\<rparr>;
                game1 = (if w = ai then game\<lparr>aiScore := aiScore game + 1, currentStreak := 0\<rparr>
                         else if w = player
                         then game\<lparr>playerScore := playerScore game + 1,
                                   currentStreak := currentStreak game + 1\<rparr>
                         else game);
                game2 = game1\<lparr>moves := moves game1 @ [move]\<rparr>;
                r1 = saveGameState (redis gm1) game2;
                r2 = addMove r1 gid move;
                r3 = incrementMetric r2 ''total_moves'' 1;
                r4 = (if isCorrect then incrementMetric r3 ''ai_correct_predictions'' 1 else r3)
            in (Inr move, gm1\<lparr>games := (games gm1)(gid \<mapsto> game2), redis := r4\<rparr>))"

section \<open>Example patterns\<close>

text \<open>The pattern of the history rock, rock, and a pattern whose two candidates tie.\<close>

definition example_repeat :: PlayerPattern where
  "example_repeat =
     \<lparr>frequencies = (\<lambda>_. 0)(rock := 2),
      transitions = (\<lambda>_ _. 0)(rock := (\<lambda>_. 0)(rock := 1)),
      streaks = (\<lambda>_. 0)(rock := 2), totalMoves = 2, lastMoves = [rock, rock],
      winRate = 0, randomnessScore = 0\<rparr>"

definition example_tie :: PlayerPattern where
  "example_tie =
     \<lparr>frequencies = (\<lambda>_. 2)(rock := 6, paper := 4),
      transitions = (\<lambda>_ _. 0)(rock := (\<lambda>_. 0)(paper := 3, scissors := 2)),
      streaks = (\<lambda>_. 1), totalMoves = 12, lastMoves = [paper, rock],
      winRate = 1 / 2, randomnessScore = 50\<rparr>"

text \<open>A move record of a given choice, to build histories from.\<close>

definition example_move :: "GameChoice \<Rightarrow> GameMove" where
  "example_move c =
     \<lparr>playerId = ''p1'', choice = c, timestamp = 0, aiPrediction = rock, aiChoice = paper,
      aiConfidence = 35, correct = (c = rock), winner = determineWinner c paper\<rparr>"

section \<open>Properties of the shared game rules and the move processing\<close>

lemma getCounterMove_simps:
  "getCounterMove rock = paper" "getCounterMove paper = scissors" "getCounterMove scissors = rock"
  by (simp_all add: getCounterMove_def GAME_RULES_entries_def)

lemma determineWinner_counter: "determineWinner c (getCounterMove c) = ai"
  by (cases c) (simp_all add: getCounterMove_simps determineWinner_def)

lemma processMove_move:
  "fst (processMove gm gid pid ch aiPred conf now) = Inr move \<Longrightarrow>
   correct move = (aiPred = ch) \<and> winner move = determineWinner ch (getCounterMove aiPred)"
  by (auto simp: processMove_def Let_def split: prod.splits option.splits if_splits)

text \<open>
  Claim C10. For every symbol \<open>c\<close>, \<open>getCounterMove c\<close> is the one symbol that beats
  \<open>c\<close> in \<open>GAME_RULES\<close>, and \<open>determineWinner c (getCounterMove c)\<close> is \<open>ai\<close>. So
  whenever \<open>processMove\<close> returns a move whose \<open>correct\<close> flag is set (the prediction
  was the player's choice), the winner it records is \<open>ai\<close>.
\<close>

theorem counter_move_wins:
  "GAME_RULES (getCounterMove c) = c
   \<and> (\<forall>d. GAME_RULES d = c \<longrightarrow> d = getCounterMove c)
   \<and> determineWinner c (getCounterMove c) = ai
   \<and> (fst (processMove gm gid pid ch aiPred conf now) = Inr move \<and> correct move
        \<longrightarrow> winner move = ai)"
proof (intro conjI impI allI)
  show "GAME_RULES (getCounterMove c) = c"
    by (cases c) (simp_all add: getCounterMove_simps)
  show "d = getCounterMove c" if "GAME_RULES d = c" for d
    using that by (cases d; cases c) (simp_all add: getCounterMove_simps)
  show "determineWinner c (getCounterMove c) = ai"
    by (rule determineWinner_counter)
  show "winner move = ai"
    if "fst (processMove gm gid pid ch aiPred conf now) = Inr move \<and> correct move"
    using that processMove_move [of gm gid pid ch aiPred conf now move]
    by (simp add: determineWinner_counter)
qed

theorem counter_move_wins_witness:
  "fst (processMove
      \<lparr>games = [''g1'' \<mapsto> \<lparr>gameId = ''g1'', playerId_g = ''p1'', username = ''ann'',
           playerScore = 0, aiScore = 0, moves = [], currentStreak = 0, gameStartTime = 5,
           status = playing\<rparr>],
        playerApiKeys = Map.empty,
        redis = \<lparr>json = Map.empty, streams = (\<lambda>_. []), counters = (\<lambda>_. 0)\<rparr>\<rparr>
      ''g1'' ''p1'' scissors scissors 35 17)
   = Inr \<lparr>playerId = ''p1'', choice = scissors, timestamp = 17, aiPrediction = scissors,
           aiChoice = rock, aiConfidence = 35, correct = True, winner = ai\<rparr>
   \<and> correct \<lparr>playerId = ''p1'', choice = scissors, timestamp = 17, aiPrediction = scissors,
           aiChoice = rock, aiConfidence = 35, correct = True, winner = ai\<rparr>
   \<and> winner \<lparr>playerId = ''p1'', choice = scissors, timestamp = 17, aiPrediction = scissors,
           aiChoice = rock, aiConfidence = 35, correct = True, winner = ai\<rparr> = ai
   \<and> GAME_RULES (getCounterMove scissors) = scissors
   \<and> determineWinner scissors (getCounterMove scissors) = ai"
  (is "fst ?run = Inr ?M \<and> _")
proof -
  have h: "fst ?run = Inr ?M"
    by (simp add: processMove_def getGame_def getCounterMove_simps determineWinner_def Let_def)
  have "fst ?run = Inr ?M \<and> correct ?M \<longrightarrow> winner ?M = ai"
    using counter_move_wins [of scissors _ "''g1''" "''p1''" scissors scissors 35 17 ?M]
    by blast
  moreover have "GAME_RULES (getCounterMove scissors) = scissors
      \<and> determineWinner scissors (getCounterMove scissors) = ai"
    using counter_move_wins [of scissors] by blast
  ultimately show ?thesis using h by simp
qed

section \<open>Properties of the pattern analysis\<close>

lemma fold_count_sum:
  "fold (\<lambda>move fr. fr(move := fr move + 1)) ms f rock
   + fold (\<lambda>move fr. fr(move := fr move + 1)) ms f paper
   + fold (\<lambda>move fr. fr(move := fr move + 1)) ms f scissors
   = f rock + f paper + f scissors + length ms"
proof (induction ms arbitrary: f)
  case Nil
  show ?case by simp
next
  case (Cons m ms)
  show ?case
    using Cons.IH [of "f(m := f m + 1)"] by (cases m) simp_all
qed

lemma totalMoves_analyzePattern: "totalMoves (analyzePattern ms) = length ms"
  by (simp add: analyzePattern_def Let_def split_def)

lemma frequencies_analyzePattern:
  "frequencies (analyzePattern ms) = calculateFrequencies (map choice ms)"
  by (simp add: analyzePattern_def Let_def split_def)

text \<open>
  Claim C5. For every move history, the pattern \<open>analyzePattern\<close> builds has its three
  frequency counts summing to \<open>totalMoves\<close>, and \<open>totalMoves\<close> is the length of the
  history.
\<close>

theorem analyzePattern_frequencies_sum:
  "sum_list (Object_values (frequencies (analyzePattern ms))) = totalMoves (analyzePattern ms)
   \<and> totalMoves (analyzePattern ms) = length ms"
  using fold_count_sum [of "map choice ms" "\<lambda>_. 0"]
  by (simp add: totalMoves_analyzePattern frequencies_analyzePattern Object_values_def
      calculateFrequencies_def)

section \<open>Properties of the prediction\<close>

text \<open>
  Claim C1. For every pattern with \<open>totalMoves < 2\<close>, the empty history included,
  \<open>predictNextMove\<close> returns exactly the cold-start analysis: prediction rock, confidence
  35, pattern type psychological and the fixed rationale, whatever the pattern's other
  fields, the random draw, the credentials and the rationale service are.
\<close>

theorem predictNextMove_cold_start:
  "totalMoves pattern < 2 \<Longrightarrow>
   predictNextMove pattern rnd apiKey env generateContent =
     Inr \<lparr>prediction = rock, confidence = 35,
          reasoning = ''Most players start with rock. It's a classic opening move!'',
          patternType = ''psychological'', suggestion = None\<rparr>"
  by (simp add: predictNextMove_def cold_start_def)

theorem predictNextMove_cold_start_witness:
  "totalMoves \<lparr>frequencies = (\<lambda>_. 0)(scissors := 1), transitions = (\<lambda>_ _. 0),
      streaks = (\<lambda>_. 0)(scissors := 1), totalMoves = 1, lastMoves = [scissors],
      winRate = 1, randomnessScore = 0\<rparr> < 2
   \<and> predictNextMove \<lparr>frequencies = (\<lambda>_. 0)(scissors := 1), transitions = (\<lambda>_ _. 0),
      streaks = (\<lambda>_. 0)(scissors := 1), totalMoves = 1, lastMoves = [scissors],
      winRate = 1, randomnessScore = 0\<rparr> (1 / 2) None None (\<lambda>_ _. Inl TypeError) =
     Inr \<lparr>prediction = rock, confidence = 35,
          reasoning = ''Most players start with rock. It's a classic opening move!'',
          patternType = ''psychological'', suggestion = None\<rparr>"
  (is "totalMoves ?P < 2 \<and> _")
proof -
  have h: "totalMoves ?P < 2" by simp
  show ?thesis
    using h predictNextMove_cold_start [OF h, of "1 / 2" None None "\<lambda>_ _. Inl TypeError"]
    by simp
qed

section \<open>Properties of the pattern hash\<close>

text \<open>
  Claim C9. \<open>generatePatternHash\<close> depends only on the last five entries of
  \<open>lastMoves\<close> and on \<open>totalMoves\<close>: two patterns that agree on both get the same hash,
  whatever their frequencies, transitions, streaks, win rate, randomness score and earlier
  entries of \<open>lastMoves\<close> are.
\<close>

theorem generatePatternHash_window:
  "slice_last 5 (lastMoves p) = slice_last 5 (lastMoves q) \<Longrightarrow> totalMoves p = totalMoves q \<Longrightarrow>
   generatePatternHash p = generatePatternHash q"
  by (simp add: generatePatternHash_def)

theorem generatePatternHash_window_witness:
  "slice_last 5 (lastMoves \<lparr>frequencies = (\<lambda>_. 4), transitions = (\<lambda>_ _. 0), streaks = (\<lambda>_. 1),
       totalMoves = 12, lastMoves = [rock, paper, rock, rock, scissors, paper],
       winRate = 0, randomnessScore = 100\<rparr>)
   = slice_last 5 (lastMoves \<lparr>frequencies = (\<lambda>_. 0), transitions = (\<lambda>_ _. 1), streaks = (\<lambda>_. 2),
       totalMoves = 12, lastMoves = [scissors, paper, rock, rock, scissors, paper],
       winRate = 1, randomnessScore = 7\<rparr>)
   \<and> generatePatternHash \<lparr>frequencies = (\<lambda>_. 4), transitions = (\<lambda>_ _. 0), streaks = (\<lambda>_. 1),
       totalMoves = 12, lastMoves = [rock, paper, rock, rock, scissors, paper],
       winRate = 0, randomnessScore = 100\<rparr>
   = generatePatternHash \<lparr>frequencies = (\<lambda>_. 0), transitions = (\<lambda>_ _. 1), streaks = (\<lambda>_. 2),
       totalMoves = 12, lastMoves = [scissors, paper, rock, rock, scissors, paper],
       winRate = 1, randomnessScore = 7\<rparr>"
  (is "slice_last 5 (lastMoves ?P) = slice_last 5 (lastMoves ?Q) \<and> _")
proof -
  have h1: "slice_last 5 (lastMoves ?P) = slice_last 5 (lastMoves ?Q)"
    by (simp add: slice_last_def)
  have h2: "totalMoves ?P = totalMoves ?Q" by simp
  show ?thesis
    using h1 generatePatternHash_window [OF h1 h2] by simp
qed

lemma hash_example:
  "generatePatternHash \<lparr>frequencies = (\<lambda>_. 4), transitions = (\<lambda>_ _. 0), streaks = (\<lambda>_. 1),
       totalMoves = 12, lastMoves = [rock, paper, rock, rock, scissors, paper],
       winRate = 0, randomnessScore = 100\<rparr> = ''cGFwZXJyb2Nrcm9ja3NjaXNzb3JzcGFwZXItMTI=''"
  by code_simp

section \<open>Properties of the candidate selection and the rationale\<close>

lemma fold_best_split:
  "fold (\<lambda>pred b. if score pred > score b then pred else b) ps b0 = r \<Longrightarrow>
   (r = b0 \<and> (\<forall>p\<in>set ps. score p \<le> score b0))
   \<or> (\<exists>pre post. ps = pre @ r # post \<and> score b0 < score r
         \<and> (\<forall>p\<in>set pre. score p < score r) \<and> (\<forall>p\<in>set post. score p \<le> score r))"
proof (induction ps arbitrary: b0)
  case Nil
  then show ?case by simp
next
  case (Cons p ps)
  show ?case
  proof (cases "score p > score b0")
    case True
    with Cons.prems have "fold (\<lambda>pred b. if score pred > score b then pred else b) ps p = r"
      by simp
    from Cons.IH [OF this] show ?thesis
    proof
      assume "r = p \<and> (\<forall>q\<in>set ps. score q \<le> score p)"
      with True have "p # ps = [] @ r # ps \<and> score b0 < score r
          \<and> (\<forall>q\<in>set []. score q < score r) \<and> (\<forall>q\<in>set ps. score q \<le> score r)"
        by simp
      then show ?thesis by blast
    next
      assume "\<exists>pre post. ps = pre @ r # post \<and> score p < score r
          \<and> (\<forall>q\<in>set pre. score q < score r) \<and> (\<forall>q\<in>set post. score q \<le> score r)"
      then obtain pre post where *: "ps = pre @ r # post" "score p < score r"
          "\<forall>q\<in>set pre. score q < score r" "\<forall>q\<in>set post. score q \<le> score r"
        by blast
      with True have "p # ps = (p # pre) @ r # post \<and> score b0 < score r
          \<and> (\<forall>q\<in>set (p # pre). score q < score r) \<and> (\<forall>q\<in>set post. score q \<le> score r)"
        by simp
      then show ?thesis by blast
    qed
  next
    case False
    with Cons.prems have "fold (\<lambda>pred b. if score pred > score b then pred else b) ps b0 = r"
      by simp
    from Cons.IH [OF this] show ?thesis
    proof
      assume "r = b0 \<and> (\<forall>q\<in>set ps. score q \<le> score b0)"
      with False show ?thesis by simp
    next
      assume "\<exists>pre post. ps = pre @ r # post \<and> score b0 < score r
          \<and> (\<forall>q\<in>set pre. score q < score r) \<and> (\<forall>q\<in>set post. score q \<le> score r)"
      then obtain pre post where *: "ps = pre @ r # post" "score b0 < score r"
          "\<forall>q\<in>set pre. score q < score r" "\<forall>q\<in>set post. score q \<le> score r"
        by blast
      with False have "p # ps = (p # pre) @ r # post \<and> score b0 < score r
          \<and> (\<forall>q\<in>set (p # pre). score q < score r) \<and> (\<forall>q\<in>set post. score q \<le> score r)"
        by simp
      then show ?thesis by blast
    qed
  qed
qed

lemma choose_best_split:
  assumes "ps \<noteq> []"
  shows "\<exists>pre post. ps = pre @ choose_best ps # post
           \<and> (\<forall>p\<in>set pre. score p < score (choose_best ps))
           \<and> (\<forall>p\<in>set post. score p \<le> score (choose_best ps))"
proof -
  from assms obtain p qs where ps: "ps = p # qs" by (cases ps) auto
  have cb: "choose_best ps = fold (\<lambda>pred b. if score pred > score b then pred else b) qs p"
    by (simp add: choose_best_def ps)
  from fold_best_split [OF cb [symmetric]] show ?thesis
  proof
    assume "choose_best ps = p \<and> (\<forall>q\<in>set qs. score q \<le> score p)"
    then have "ps = [] @ choose_best ps # qs \<and> (\<forall>q\<in>set []. score q < score (choose_best ps))
        \<and> (\<forall>q\<in>set qs. score q \<le> score (choose_best ps))"
      by (simp add: ps)
    then show ?thesis by blast
  next
    assume "\<exists>pre post. qs = pre @ choose_best ps # post \<and> score p < score (choose_best ps)
        \<and> (\<forall>q\<in>set pre. score q < score (choose_best ps))
        \<and> (\<forall>q\<in>set post. score q \<le> score (choose_best ps))"
    then obtain pre post where "qs = pre @ choose_best ps # post" "score p < score (choose_best ps)"
        "\<forall>q\<in>set pre. score q < score (choose_best ps)"
        "\<forall>q\<in>set post. score q \<le> score (choose_best ps)"
      by blast
    then have "ps = (p # pre) @ choose_best ps # post
        \<and> (\<forall>q\<in>set (p # pre). score q < score (choose_best ps))
        \<and> (\<forall>q\<in>set post. score q \<le> score (choose_best ps))"
      by (simp add: ps)
    then show ?thesis by blast
  qed
qed

lemma predictions_nonempty: "predictions pattern rnd \<noteq> []"
  by (simp add: predictions_def frequency_strategy_def)

lemma predictNextMove_Inr:
  "predictNextMove pattern rnd apiKey env gen = Inr a \<Longrightarrow> 2 \<le> totalMoves pattern \<Longrightarrow>
   prediction a = choice_c (choose_best (predictions pattern rnd))
   \<and> confidence a = confidence_of (choose_best (predictions pattern rnd))
   \<and> patternType a = type (choose_best (predictions pattern rnd))"
  by (auto simp: predictNextMove_def Let_def split: if_splits)


lemma predictNextMove_returns:
  "lastMoves pattern \<noteq> [] \<Longrightarrow> \<exists>a. predictNextMove pattern rnd apiKey env gen = Inr a"
  by (simp add: predictNextMove_def Let_def)

text \<open>
  Claim C8. For every pattern with \<open>totalMoves \<ge> 2\<close>, the candidates are produced in the
  order frequency, transition, meta, win-stay, rotation, and whenever \<open>predictNextMove\<close>
  returns (it does as soon as \<open>lastMoves\<close> is not empty), its prediction, confidence and
  pattern type are those of a candidate \<open>w\<close> that no candidate out-scores and that every
  candidate produced before it scores strictly less than: the first candidate of the
  highest score.
\<close>

theorem predictNextMove_first_maximum:
  assumes "2 \<le> totalMoves pattern"
  shows "predictions pattern rnd =
           frequency_strategy pattern @ transition_strategy pattern (last (lastMoves pattern))
           @ meta_strategy pattern @ win_stay_lose_shift pattern rnd @ rotation_strategy pattern
         \<and> (lastMoves pattern \<noteq> [] \<longrightarrow> (\<exists>a. predictNextMove pattern rnd apiKey env gen = Inr a))
         \<and> (\<forall>a. predictNextMove pattern rnd apiKey env gen = Inr a \<longrightarrow>
              (\<exists>pre w post. predictions pattern rnd = pre @ w # post
                 \<and> (\<forall>p\<in>set pre. score p < score w) \<and> (\<forall>p\<in>set post. score p \<le> score w)
                 \<and> prediction a = choice_c w \<and> confidence a = confidence_of w
                 \<and> patternType a = type w))"
proof (intro conjI allI impI)
  show "predictions pattern rnd =
           frequency_strategy pattern @ transition_strategy pattern (last (lastMoves pattern))
           @ meta_strategy pattern @ win_stay_lose_shift pattern rnd @ rotation_strategy pattern"
    by (simp add: predictions_def)
  show "\<exists>a. predictNextMove pattern rnd apiKey env gen = Inr a" if "lastMoves pattern \<noteq> []"
    using that by (rule predictNextMove_returns)
  fix a
  assume ret: "predictNextMove pattern rnd apiKey env gen = Inr a"
  let ?w = "choose_best (predictions pattern rnd)"
  from choose_best_split [OF predictions_nonempty, of pattern rnd]
  obtain pre post where "predictions pattern rnd = pre @ ?w # post"
      "\<forall>p\<in>set pre. score p < score ?w" "\<forall>p\<in>set post. score p \<le> score ?w"
    by blast
  with predictNextMove_Inr [OF ret assms]
  show "\<exists>pre w post. predictions pattern rnd = pre @ w # post
          \<and> (\<forall>p\<in>set pre. score p < score w) \<and> (\<forall>p\<in>set post. score p \<le> score w)
          \<and> prediction a = choice_c w \<and> confidence a = confidence_of w \<and> patternType a = type w"
    by blast
qed

text \<open>
  Claim C3. \<open>predictNextMove\<close> throws only on a pattern with \<open>totalMoves \<ge> 2\<close> and no
  \<open>lastMoves\<close>; on every other input it returns an analysis whose confidence is at most
  85: it is 35 on the cold-start branch, and otherwise \<open>round (winningScore * 100)\<close> cut
  at 85, where the winning score is that of the chosen candidate.
\<close>

theorem predictNextMove_confidence_capped:
  "(case predictNextMove pattern rnd apiKey env gen of
      Inl e \<Rightarrow> 2 \<le> totalMoves pattern \<and> lastMoves pattern = []
    | Inr a \<Rightarrow>
        confidence a \<le> 85
        \<and> (totalMoves pattern < 2 \<longrightarrow> confidence a = 35)
        \<and> (2 \<le> totalMoves pattern \<longrightarrow>
             confidence a =
               min (Math_round (score (choose_best (predictions pattern rnd)) * 100)) 85))"
  by (simp add: predictNextMove_def cold_start_def confidence_of_def Let_def)

lemma alternatives_simps:
  "filter (\<lambda>x. x \<noteq> rock) GAME_CHOICES = [paper, scissors]"
  "filter (\<lambda>x. x \<noteq> paper) GAME_CHOICES = [rock, scissors]"
  "filter (\<lambda>x. x \<noteq> scissors) GAME_CHOICES = [rock, paper]"
  by (simp_all add: GAME_CHOICES_def)

lemma draw_index:
  assumes "0 \<le> rnd" "rnd < 1"
  shows "nat \<lfloor>rnd * 2\<rfloor> = (if rnd < 1 / 2 then 0 else 1)"
proof (cases "rnd < 1 / 2")
  case True
  with assms have "\<lfloor>rnd * 2\<rfloor> = 0" by (intro floor_unique) simp_all
  with True show ?thesis by simp
next
  case False
  with assms have "\<lfloor>rnd * 2\<rfloor> = 1" by (intro floor_unique) simp_all
  with False show ?thesis by simp
qed

lemma last_two:
  "length (xs @ [y, z]) - 1 = Suc (length xs)" "length (xs @ [y, z]) - 2 = length xs"
  "(xs @ [y, z]) ! Suc (length xs) = z" "(xs @ [y, z]) ! length xs = y"
  by (simp_all add: nth_append)

text \<open>
  Claim C7. When the last two entries of \<open>lastMoves\<close> are the same symbol \<open>c\<close>, the
  win-stay/lose-shift strategy contributes one candidate of score 0.35 and type
  psychological, whose symbol is drawn from the two symbols other than \<open>c\<close>: the first of
  them when the random number is below one half, the second otherwise, so each on half of
  \<open>[0, 1)\<close>, and the same random number gives the same draw. When the last two entries
  differ, or there are fewer than two, the strategy contributes nothing.
\<close>

theorem win_stay_lose_shift_draw:
  "(lastMoves pattern = xs @ [c, c] \<and> 0 \<le> rnd \<and> rnd < 1 \<longrightarrow>
      win_stay_lose_shift pattern rnd =
        [\<lparr>choice_c = filter (\<lambda>x. x \<noteq> c) GAME_CHOICES ! (if rnd < 1 / 2 then 0 else 1),
          score = 0.35, type = ''psychological''\<rparr>]
      \<and> length (filter (\<lambda>x. x \<noteq> c) GAME_CHOICES) = 2
      \<and> distinct (filter (\<lambda>x. x \<noteq> c) GAME_CHOICES)
      \<and> set (filter (\<lambda>x. x \<noteq> c) GAME_CHOICES) = UNIV - {c})
   \<and> (lastMoves pattern = xs @ [y, z] \<and> y \<noteq> z \<longrightarrow> win_stay_lose_shift pattern rnd = [])
   \<and> (length (lastMoves pattern) < 2 \<longrightarrow> win_stay_lose_shift pattern rnd = [])
   \<and> set (win_stay_lose_shift pattern rnd) \<subseteq> set (predictions pattern rnd)"
proof (intro conjI impI)
  assume a: "lastMoves pattern = xs @ [c, c] \<and> 0 \<le> rnd \<and> rnd < 1"
  then have len: "length (filter (\<lambda>x. x \<noteq> c) GAME_CHOICES) = 2"
    by (cases c) (simp_all add: alternatives_simps)
  from a have "nat \<lfloor>rnd * 2\<rfloor> = (if rnd < 1 / 2 then 0 else 1)"
    by (simp add: draw_index)
  with a len show "win_stay_lose_shift pattern rnd =
        [\<lparr>choice_c = filter (\<lambda>x. x \<noteq> c) GAME_CHOICES ! (if rnd < 1 / 2 then 0 else 1),
          score = 0.35, type = ''psychological''\<rparr>]"
    by (simp add: win_stay_lose_shift_def Let_def last_two)
  show "length (filter (\<lambda>x. x \<noteq> c) GAME_CHOICES) = 2" by (rule len)
  show "distinct (filter (\<lambda>x. x \<noteq> c) GAME_CHOICES)"
    by (simp add: GAME_CHOICES_def)
  show "set (filter (\<lambda>x. x \<noteq> c) GAME_CHOICES) = UNIV - {c}"
  proof -
    have "set GAME_CHOICES = UNIV"
    proof -
      have "x \<in> set GAME_CHOICES" for x by (cases x) (simp_all add: GAME_CHOICES_def)
      then show ?thesis by blast
    qed
    then show ?thesis by auto
  qed
next
  assume "lastMoves pattern = xs @ [y, z] \<and> y \<noteq> z"
  then show "win_stay_lose_shift pattern rnd = []"
    by (auto simp: win_stay_lose_shift_def Let_def last_two)
next
  assume "length (lastMoves pattern) < 2"
  then show "win_stay_lose_shift pattern rnd = []"
    by (simp add: win_stay_lose_shift_def Let_def)
next
  show "set (win_stay_lose_shift pattern rnd) \<subseteq> set (predictions pattern rnd)"
    by (auto simp: predictions_def)
qed

lemma fallback_reasoning_nonempty: "fallback_reasoning pt pr lm \<noteq> []"
  by (simp add: fallback_reasoning_def fallbackReasons_def)

lemma fallback_reasoning_keyed:
  "pt \<in> set [''frequency'', ''sequential'', ''meta'', ''psychological''] \<Longrightarrow>
   map_of (fallbackReasons pr lm) pt = Some (fallback_reasoning pt pr lm)"
  by (auto simp: fallback_reasoning_def fallbackReasons_def)

lemma fallback_reasoning_generic:
  "map_of (fallbackReasons pr lm) pt = None \<Longrightarrow>
   fallback_reasoning pt pr lm = ''I predict '' @ choice_text pr @ ''!''"
  by (simp add: fallback_reasoning_def)

lemma predictions_types:
  "p \<in> set (predictions pattern rnd) \<Longrightarrow>
   type p \<in> set [''frequency'', ''sequential'', ''meta'', ''psychological'']"
  by (auto simp: predictions_def frequency_strategy_def transition_strategy_def meta_strategy_def
      win_stay_lose_shift_def rotation_strategy_def Let_def split_def split: if_splits)

lemma choose_best_mem: "ps \<noteq> [] \<Longrightarrow> choose_best ps \<in> set ps"
  using choose_best_split [of ps] by (metis in_set_conv_decomp)

lemma missing_key_fails:
  "\<not> truthy apiKey \<Longrightarrow> \<not> truthy env \<Longrightarrow>
   try_rationale pattern w apiKey env gen = Inl (Error ''No Gemini API key provided'')"
  by (simp add: try_rationale_def getGeminiModel_def Let_def)

lemma service_error_fails:
  "getGeminiModel apiKey env = Inr key \<Longrightarrow>
   gen key (build_prompt pattern (type w) (choice_c w)) = Inl e \<Longrightarrow>
   try_rationale pattern w apiKey env gen = Inl e"
  by (simp add: try_rationale_def Let_def)

text \<open>
  Claim C4. \<open>predictNextMove\<close> throws only on a pattern with \<open>totalMoves \<ge> 2\<close> and no
  \<open>lastMoves\<close>, whatever the credentials and the rationale service are. A missing key
  and a failing service make the \<^verbatim>\<open>try\<close> block fail, and whenever it fails the analysis
  returned has the chosen candidate's prediction, confidence and pattern type, and as
  reasoning the non-empty template that \<open>fallbackReasons\<close> holds for the candidate's type;
  a type with no template would get the generic sentence. Prediction, confidence and
  pattern type are the same under any other credentials and service.
\<close>

theorem predictNextMove_rationale_fallback:
  "(isl (predictNextMove pattern rnd apiKey env gen) \<longleftrightarrow>
      2 \<le> totalMoves pattern \<and> lastMoves pattern = [])
   \<and> (\<not> truthy apiKey \<and> \<not> truthy env \<longrightarrow>
        try_rationale pattern (choose_best (predictions pattern rnd)) apiKey env gen
          = Inl (Error ''No Gemini API key provided''))
   \<and> (getGeminiModel apiKey env = Inr key
        \<and> gen key (build_prompt pattern (type (choose_best (predictions pattern rnd)))
                     (choice_c (choose_best (predictions pattern rnd)))) = Inl e \<longrightarrow>
        try_rationale pattern (choose_best (predictions pattern rnd)) apiKey env gen = Inl e)
   \<and> (2 \<le> totalMoves pattern \<and> lastMoves pattern \<noteq> []
        \<and> try_rationale pattern (choose_best (predictions pattern rnd)) apiKey env gen = Inl e \<longrightarrow>
        predictNextMove pattern rnd apiKey env gen =
          Inr \<lparr>prediction = choice_c (choose_best (predictions pattern rnd)),
               confidence = confidence_of (choose_best (predictions pattern rnd)),
               reasoning = fallback_reasoning (type (choose_best (predictions pattern rnd)))
                 (choice_c (choose_best (predictions pattern rnd))) (last (lastMoves pattern)),
               patternType = type (choose_best (predictions pattern rnd)),
               suggestion = None\<rparr>
        \<and> fallback_reasoning (type (choose_best (predictions pattern rnd)))
             (choice_c (choose_best (predictions pattern rnd))) (last (lastMoves pattern)) \<noteq> []
        \<and> map_of (fallbackReasons (choice_c (choose_best (predictions pattern rnd)))
                    (last (lastMoves pattern))) (type (choose_best (predictions pattern rnd)))
            = Some (fallback_reasoning (type (choose_best (predictions pattern rnd)))
                 (choice_c (choose_best (predictions pattern rnd))) (last (lastMoves pattern))))
   \<and> (map_of (fallbackReasons pr lm) pt = None \<longrightarrow>
        fallback_reasoning pt pr lm = ''I predict '' @ choice_text pr @ ''!'')
   \<and> (predictNextMove pattern rnd apiKey env gen = Inr a
        \<and> predictNextMove pattern rnd apiKey' env' gen' = Inr a' \<longrightarrow>
        prediction a' = prediction a \<and> confidence a' = confidence a
        \<and> patternType a' = patternType a)"
  (is "?throws \<and> ?nokey \<and> ?svc \<and> ?fallback \<and> ?generic \<and> ?same")
proof -
  let ?w = "choose_best (predictions pattern rnd)"
  have ?throws
    by (simp add: predictNextMove_def Let_def)
  moreover have ?nokey
    by (simp add: missing_key_fails)
  moreover have ?svc
    by (simp add: service_error_fails)
  moreover have ?fallback
  proof
    assume a: "2 \<le> totalMoves pattern \<and> lastMoves pattern \<noteq> []
        \<and> try_rationale pattern ?w apiKey env gen = Inl e"
    have "?w \<in> set (predictions pattern rnd)"
      by (rule choose_best_mem [OF predictions_nonempty])
    then have tag: "type ?w \<in> set [''frequency'', ''sequential'', ''meta'', ''psychological'']"
      by (rule predictions_types)
    from a have "predictNextMove pattern rnd apiKey env gen =
          Inr \<lparr>prediction = choice_c ?w, confidence = confidence_of ?w,
               reasoning = fallback_reasoning (type ?w) (choice_c ?w) (last (lastMoves pattern)),
               patternType = type ?w, suggestion = None\<rparr>"
      by (simp add: predictNextMove_def rationale_def Let_def)
    with fallback_reasoning_nonempty fallback_reasoning_keyed [OF tag]
    show "predictNextMove pattern rnd apiKey env gen =
          Inr \<lparr>prediction = choice_c ?w, confidence = confidence_of ?w,
               reasoning = fallback_reasoning (type ?w) (choice_c ?w) (last (lastMoves pattern)),
               patternType = type ?w, suggestion = None\<rparr>
        \<and> fallback_reasoning (type ?w) (choice_c ?w) (last (lastMoves pattern)) \<noteq> []
        \<and> map_of (fallbackReasons (choice_c ?w) (last (lastMoves pattern))) (type ?w)
            = Some (fallback_reasoning (type ?w) (choice_c ?w) (last (lastMoves pattern)))"
      by blast
  qed
  moreover have ?generic
    by (simp add: fallback_reasoning_generic)
  moreover have ?same
    by (auto simp: predictNextMove_def Let_def split: if_splits)
  ultimately show ?thesis by blast
qed


lemmas strategy_defs =
  predictions_def frequency_strategy_def favoriteChoice_def leastUsed_def Object_values_def
  Object_entries_def transition_strategy_def transition_step_def GAME_CHOICES_def
  meta_strategy_def win_stay_lose_shift_def rotation_strategy_def slice_last_def

lemmas rationale_defs =
  rationale_def try_rationale_def getGeminiModel_def truthy_def fallback_reasoning_def
  fallbackReasons_def

lemma predictions_example_tie:
  "predictions example_tie rnd =
     [\<lparr>choice_c = rock, score = 0.3, type = ''frequency''\<rparr>,
      \<lparr>choice_c = paper, score = 0.3, type = ''sequential''\<rparr>]"
  by (simp add: example_tie_def strategy_defs)

lemma predictions_example_repeat:
  "predictions example_repeat (7 / 10) =
     [\<lparr>choice_c = rock, score = 0.3, type = ''frequency''\<rparr>,
      \<lparr>choice_c = rock, score = 0.5, type = ''sequential''\<rparr>,
      \<lparr>choice_c = scissors, score = 0.35, type = ''psychological''\<rparr>]"
  by (simp add: example_repeat_def strategy_defs)

lemma predict_example_tie:
  "predictNextMove example_tie 0 None None (\<lambda>_ _. Inl TypeError) =
     Inr \<lparr>prediction = rock, confidence = 30,
          reasoning = ''You love playing rock - it's your go-to move!'',
          patternType = ''frequency'', suggestion = None\<rparr>"
  by (simp add: predictNextMove_def predictions_example_tie choose_best_def confidence_of_def
      Math_round_def rationale_defs)
    (simp add: example_tie_def)

lemma predict_example_repeat:
  "predictNextMove example_repeat (7 / 10) None (Some []) (\<lambda>_ _. Inr ''unused'') =
     Inr \<lparr>prediction = rock, confidence = 50,
          reasoning = ''Following your pattern, rock comes next.'',
          patternType = ''sequential'', suggestion = None\<rparr>"
  by (simp add: predictNextMove_def predictions_example_repeat choose_best_def confidence_of_def
      Math_round_def rationale_defs)
    (simp add: example_repeat_def)

theorem predictNextMove_first_maximum_witness:
  "2 \<le> totalMoves example_tie
   \<and> predictions example_tie 0 =
       [\<lparr>choice_c = rock, score = 0.3, type = ''frequency''\<rparr>,
        \<lparr>choice_c = paper, score = 0.3, type = ''sequential''\<rparr>]
   \<and> (\<exists>pre w post. predictions example_tie 0 = pre @ w # post
         \<and> (\<forall>p\<in>set pre. score p < score w) \<and> (\<forall>p\<in>set post. score p \<le> score w)
         \<and> choice_c w = rock \<and> confidence_of w = 30 \<and> type w = ''frequency'')"
proof -
  have h: "2 \<le> totalMoves example_tie" by (simp add: example_tie_def)
  have "\<forall>a. predictNextMove example_tie 0 None None (\<lambda>_ _. Inl TypeError) = Inr a \<longrightarrow>
          (\<exists>pre w post. predictions example_tie 0 = pre @ w # post
             \<and> (\<forall>p\<in>set pre. score p < score w) \<and> (\<forall>p\<in>set post. score p \<le> score w)
             \<and> prediction a = choice_c w \<and> confidence a = confidence_of w
             \<and> patternType a = type w)"
    using predictNextMove_first_maximum [OF h, of 0 None None "\<lambda>_ _. Inl TypeError"]
    by blast
  with predict_example_tie
  have "\<exists>pre w post. predictions example_tie 0 = pre @ w # post
         \<and> (\<forall>p\<in>set pre. score p < score w) \<and> (\<forall>p\<in>set post. score p \<le> score w)
         \<and> choice_c w = rock \<and> confidence_of w = 30 \<and> type w = ''frequency''"
    by fastforce
  with h predictions_example_tie show ?thesis by simp
qed

theorem predictNextMove_confidence_capped_witness:
  "predictNextMove example_repeat (7 / 10) None (Some []) (\<lambda>_ _. Inr ''unused'') =
     Inr \<lparr>prediction = rock, confidence = 50,
          reasoning = ''Following your pattern, rock comes next.'',
          patternType = ''sequential'', suggestion = None\<rparr>
   \<and> (50 :: int) \<le> 85
   \<and> 2 \<le> totalMoves example_repeat
   \<and> (50 :: int) = min (Math_round (score (choose_best (predictions example_repeat (7 / 10))) * 100)) 85
   \<and> totalMoves (analyzePattern []) < 2
   \<and> predictNextMove (analyzePattern []) (7 / 10) None None (\<lambda>_ _. Inr ''unused'') = Inr cold_start
   \<and> confidence cold_start = 35"
proof -
  have h: "2 \<le> totalMoves example_repeat" by (simp add: example_repeat_def)
  have c: "totalMoves (analyzePattern []) < 2" by (simp add: totalMoves_analyzePattern)
  then have ev: "predictNextMove (analyzePattern []) (7 / 10) None None (\<lambda>_ _. Inr ''unused'')
      = Inr cold_start"
    by (simp add: predictNextMove_def)
  from predictNextMove_confidence_capped [of example_repeat "7 / 10" None "Some []"
      "\<lambda>_ _. Inr ''unused''"] h
  have "(50 :: int) = min (Math_round (score (choose_best (predictions example_repeat (7 / 10))) * 100)) 85"
    by (simp add: predict_example_repeat)
  moreover from predictNextMove_confidence_capped [of "analyzePattern []" "7 / 10" None None
      "\<lambda>_ _. Inr ''unused''"] c
  have "confidence cold_start = 35"
    by (simp add: ev)
  ultimately show ?thesis using h c ev predict_example_repeat by simp
qed

theorem win_stay_lose_shift_draw_witness:
  "lastMoves example_repeat = [] @ [rock, rock] \<and> (0 :: real) \<le> 7 / 10 \<and> (7 / 10 :: real) < 1
   \<and> win_stay_lose_shift example_repeat (7 / 10) =
       [\<lparr>choice_c = scissors, score = 0.35, type = ''psychological''\<rparr>]
   \<and> win_stay_lose_shift example_repeat (2 / 10) =
       [\<lparr>choice_c = paper, score = 0.35, type = ''psychological''\<rparr>]
   \<and> lastMoves example_tie = [] @ [paper, rock] \<and> paper \<noteq> rock
   \<and> win_stay_lose_shift example_tie (7 / 10) = []
   \<and> length (lastMoves (analyzePattern [example_move paper])) < 2
   \<and> win_stay_lose_shift (analyzePattern [example_move paper]) (7 / 10) = []"
proof -
  have h3: "length (lastMoves (analyzePattern [example_move paper])) < 2"
    by (simp add: analyzePattern_def Let_def split_def slice_last_def)
  have h1: "lastMoves example_repeat = [] @ [rock, rock]" by (simp add: example_repeat_def)
  have h2: "lastMoves example_tie = [] @ [paper, rock] \<and> paper \<noteq> rock"
    by (simp add: example_tie_def)
  have "win_stay_lose_shift example_repeat (7 / 10) =
       [\<lparr>choice_c = scissors, score = 0.35, type = ''psychological''\<rparr>]"
    using h1 win_stay_lose_shift_draw [where pattern = example_repeat and xs = "[]" and c = rock
        and rnd = "7 / 10"]
    by (simp add: alternatives_simps)
  moreover have "win_stay_lose_shift example_repeat (2 / 10) =
       [\<lparr>choice_c = paper, score = 0.35, type = ''psychological''\<rparr>]"
    using h1 win_stay_lose_shift_draw [where pattern = example_repeat and xs = "[]" and c = rock
        and rnd = "2 / 10"]
    by (simp add: alternatives_simps)
  moreover have "win_stay_lose_shift example_tie (7 / 10) = []"
    using h2 win_stay_lose_shift_draw [where pattern = example_tie and xs = "[]" and y = paper
        and z = rock and rnd = "7 / 10"]
    by blast
  moreover have "win_stay_lose_shift (analyzePattern [example_move paper]) (7 / 10) = []"
    using h3 win_stay_lose_shift_draw [where pattern = "analyzePattern [example_move paper]"
        and rnd = "7 / 10"]
    by blast
  ultimately show ?thesis using h1 h2 h3 by simp
qed

lemma best_example_repeat:
  "choose_best (predictions example_repeat (7 / 10)) =
     \<lparr>choice_c = rock, score = 0.5, type = ''sequential''\<rparr>"
  by (simp add: predictions_example_repeat choose_best_def)

theorem predictNextMove_rationale_fallback_witness:
  "\<not> truthy None \<and> \<not> truthy (Some [])
   \<and> 2 \<le> totalMoves example_repeat \<and> lastMoves example_repeat \<noteq> []
   \<and> try_rationale example_repeat (choose_best (predictions example_repeat (7 / 10)))
        None (Some []) (\<lambda>_ _. Inr ''unused'') = Inl (Error ''No Gemini API key provided'')
   \<and> predictNextMove example_repeat (7 / 10) None (Some []) (\<lambda>_ _. Inr ''unused'') =
       Inr \<lparr>prediction = rock, confidence = 50,
            reasoning = ''Following your pattern, rock comes next.'',
            patternType = ''sequential'', suggestion = None\<rparr>
   \<and> getGeminiModel (Some ''key'') None = Inr ''key''
   \<and> predictNextMove example_repeat (7 / 10) (Some ''key'') None (\<lambda>_ _. Inl (Error ''unavailable'')) =
       Inr \<lparr>prediction = rock, confidence = 50,
            reasoning = ''Following your pattern, rock comes next.'',
            patternType = ''sequential'', suggestion = None\<rparr>
   \<and> map_of (fallbackReasons paper rock) ''other'' = None
   \<and> fallback_reasoning ''other'' paper rock = ''I predict paper!''"
proof -
  have u: "map_of (fallbackReasons paper rock) ''other'' = None"
    by (simp add: fallbackReasons_def)
  have gen: "fallback_reasoning ''other'' paper rock = ''I predict paper!''"
    using u predictNextMove_rationale_fallback [where pr = paper and lm = rock and pt = "''other''"]
    by simp
  let ?w = "choose_best (predictions example_repeat (7 / 10))"
  have k: "\<not> truthy None \<and> \<not> truthy (Some [])" by (simp add: truthy_def)
  have h: "2 \<le> totalMoves example_repeat \<and> lastMoves example_repeat \<noteq> []"
    by (simp add: example_repeat_def)
  have g: "getGeminiModel (Some ''key'') None = Inr ''key''"
    by (simp add: getGeminiModel_def truthy_def)
  have lm: "last (lastMoves example_repeat) = rock" by (simp add: example_repeat_def)
  have ev: "confidence_of ?w = 50" "choice_c ?w = rock" "type ?w = ''sequential''"
      "fallback_reasoning (type ?w) (choice_c ?w) rock = ''Following your pattern, rock comes next.''"
    by (simp_all add: best_example_repeat confidence_of_def Math_round_def fallback_reasoning_def
        fallbackReasons_def)
  note T1 = predictNextMove_rationale_fallback [where pattern = example_repeat and rnd = "7 / 10"
      and apiKey = None and env = "Some []" and gen = "\<lambda>_ _. Inr ''unused''"
      and e = "Error ''No Gemini API key provided''"]
  note T2 = predictNextMove_rationale_fallback [where pattern = example_repeat and rnd = "7 / 10"
      and apiKey = "Some ''key''" and env = None and gen = "\<lambda>_ _. Inl (Error ''unavailable'')"
      and e = "Error ''unavailable''" and key = "''key''"]
  have f1: "try_rationale example_repeat ?w None (Some []) (\<lambda>_ _. Inr ''unused'')
      = Inl (Error ''No Gemini API key provided'')"
    using T1 k by blast
  with T1 h have r1: "predictNextMove example_repeat (7 / 10) None (Some []) (\<lambda>_ _. Inr ''unused'') =
       Inr \<lparr>prediction = choice_c ?w, confidence = confidence_of ?w,
            reasoning = fallback_reasoning (type ?w) (choice_c ?w) (last (lastMoves example_repeat)),
            patternType = type ?w, suggestion = None\<rparr>"
    by blast
  have "try_rationale example_repeat ?w (Some ''key'') None (\<lambda>_ _. Inl (Error ''unavailable''))
      = Inl (Error ''unavailable'')"
    using T2 g by blast
  with T2 h have r2: "predictNextMove example_repeat (7 / 10) (Some ''key'') None
        (\<lambda>_ _. Inl (Error ''unavailable'')) =
       Inr \<lparr>prediction = choice_c ?w, confidence = confidence_of ?w,
            reasoning = fallback_reasoning (type ?w) (choice_c ?w) (last (lastMoves example_repeat)),
            patternType = type ?w, suggestion = None\<rparr>"
    by blast
  from k h f1 g r1 r2 u gen show ?thesis
    by (simp only: lm ev) (simp add: fallback_reasoning_def fallbackReasons_def)
qed

section \<open>Properties of the randomness score\<close>

lemma entropy_term_nonneg:
  fixes x :: real
  assumes "0 \<le> x" "x \<le> 1"
  shows "0 \<le> (if x > 0 then - x * log 2 x else 0)"
proof (cases "x > 0")
  case True
  with assms have "log 2 x \<le> 0" by simp
  with True have "0 \<le> - x * log 2 x"
    by (simp add: mult_nonneg_nonpos2 mult_le_0_iff)
  with True show ?thesis by simp
next
  case False
  then show ?thesis by simp
qed

lemma entropy_term_upper:
  fixes x :: real
  assumes "0 \<le> x"
  shows "(if x > 0 then - x * log 2 x else 0) \<le> (1 / 3 - x) / ln 2 + x * log 2 3"
proof (cases "x > 0")
  case True
  have ln2: "0 < ln (2 :: real)" by simp
  from True have "ln (1 / (3 * x)) \<le> 1 / (3 * x) - 1"
    by (intro ln_le_minus_one) simp
  moreover from True have "ln (1 / (3 * x)) = - ln 3 - ln x"
    by (simp add: ln_div ln_mult)
  ultimately have "- ln 3 - ln x \<le> 1 / (3 * x) - 1" by simp
  with True have "x * (- ln 3 - ln x) \<le> x * (1 / (3 * x) - 1)"
    by (intro mult_left_mono) simp_all
  also from True have "x * (1 / (3 * x) - 1) = 1 / 3 - x"
    by (simp add: field_simps)
  finally have "- x * ln x \<le> (1 / 3 - x) + x * ln 3"
    by (simp add: algebra_simps)
  with ln2 have "(- x * ln x) / ln 2 \<le> ((1 / 3 - x) + x * ln 3) / ln 2"
    by (intro divide_right_mono) simp_all
  then have "- x * log 2 x \<le> (1 / 3 - x) / ln 2 + x * log 2 3"
    by (simp add: log_def add_divide_distrib)
  with True show ?thesis by simp
next
  case False
  with assms have "x = 0" by simp
  then show ?thesis by simp
qed

lemma fold_entropy:
  "fold (entropy_step pattern) GAME_CHOICES 0 =
     (if real (frequencies pattern rock) / real (totalMoves pattern) > 0
      then - (real (frequencies pattern rock) / real (totalMoves pattern))
             * log 2 (real (frequencies pattern rock) / real (totalMoves pattern)) else 0)
   + (if real (frequencies pattern paper) / real (totalMoves pattern) > 0
      then - (real (frequencies pattern paper) / real (totalMoves pattern))
             * log 2 (real (frequencies pattern paper) / real (totalMoves pattern)) else 0)
   + (if real (frequencies pattern scissors) / real (totalMoves pattern) > 0
      then - (real (frequencies pattern scissors) / real (totalMoves pattern))
             * log 2 (real (frequencies pattern scissors) / real (totalMoves pattern)) else 0)"
  by (simp add: entropy_step_def GAME_CHOICES_def Let_def)

lemma entropy_bounds:
  assumes n: "0 < totalMoves pattern"
    and sum: "frequencies pattern rock + frequencies pattern paper + frequencies pattern scissors
              = totalMoves pattern"
  shows "0 \<le> fold (entropy_step pattern) GAME_CHOICES 0"
    and "fold (entropy_step pattern) GAME_CHOICES 0 \<le> log 2 3"
proof -
  let ?n = "real (totalMoves pattern)"
  let ?p = "\<lambda>c. real (frequencies pattern c) / ?n"
  let ?g = "\<lambda>x::real. if x > 0 then - x * log 2 x else 0"
  have H: "fold (entropy_step pattern) GAME_CHOICES 0 = ?g (?p rock) + ?g (?p paper) + ?g (?p scissors)"
    by (rule fold_entropy)
  from n have npos: "0 < ?n" by simp
  have "real (frequencies pattern rock) + real (frequencies pattern paper)
        + real (frequencies pattern scissors) = ?n"
    using sum by (metis of_nat_add)
  with npos have one: "?p rock + ?p paper + ?p scissors = 1"
    by (simp add: add_divide_distrib [symmetric])
  have nonneg: "0 \<le> ?p c" for c by simp
  have le1: "?p c \<le> 1" for c
  proof -
    from sum have "frequencies pattern c \<le> totalMoves pattern" by (cases c) simp_all
    with npos show ?thesis by simp
  qed
  have "0 \<le> ?g (?p rock)" "0 \<le> ?g (?p paper)" "0 \<le> ?g (?p scissors)"
    using entropy_term_nonneg [OF nonneg le1] by blast+
  with H show "0 \<le> fold (entropy_step pattern) GAME_CHOICES 0" by linarith
  have "?g (?p rock) \<le> (1 / 3 - ?p rock) / ln 2 + ?p rock * log 2 3"
       "?g (?p paper) \<le> (1 / 3 - ?p paper) / ln 2 + ?p paper * log 2 3"
       "?g (?p scissors) \<le> (1 / 3 - ?p scissors) / ln 2 + ?p scissors * log 2 3"
    using entropy_term_upper [OF nonneg] by blast+
  then have "?g (?p rock) + ?g (?p paper) + ?g (?p scissors)
      \<le> (1 - (?p rock + ?p paper + ?p scissors)) / ln 2
        + (?p rock + ?p paper + ?p scissors) * log 2 3"
    by (simp add: algebra_simps diff_divide_distrib add_divide_distrib)
  with one H show "fold (entropy_step pattern) GAME_CHOICES 0 \<le> log 2 3" by simp
qed


lemma Math_round_unit_range:
  assumes "0 \<le> x" "x \<le> 1"
  shows "0 \<le> Math_round (x * 100)" and "Math_round (x * 100) \<le> 100"
proof -
  from assms have "0 \<le> x * 100 + 1 / 2" by simp
  then show "0 \<le> Math_round (x * 100)" by (simp add: Math_round_def)
  from assms have "x * 100 + 1 / 2 < 101" by simp
  then have "\<lfloor>x * 100 + 1 / 2\<rfloor> < 101" by (simp add: floor_less_iff)
  then show "Math_round (x * 100) \<le> 100" by (simp add: Math_round_def)
qed

lemma calculateRandomness_range:
  assumes "frequencies pattern rock + frequencies pattern paper + frequencies pattern scissors
           = totalMoves pattern"
  shows "0 \<le> calculateRandomness pattern \<and> calculateRandomness pattern \<le> 100"
proof (cases "totalMoves pattern = 0")
  case True
  then show ?thesis by (simp add: calculateRandomness_def)
next
  case False
  then have n: "0 < totalMoves pattern" by simp
  let ?H = "fold (entropy_step pattern) GAME_CHOICES 0"
  have l3: "0 < log 2 (3 :: real)" by simp
  from entropy_bounds [OF n assms] have "0 \<le> ?H" "?H \<le> log 2 3" by blast+
  with l3 have "0 \<le> ?H / log 2 3" "?H / log 2 3 \<le> 1"
    by (simp_all add: divide_le_eq_1)
  from Math_round_unit_range [OF this] False show ?thesis
    by (simp add: calculateRandomness_def Let_def)
qed

lemma randomnessScore_analyzePattern:
  "randomnessScore (analyzePattern ms) = calculateRandomness (analyzePattern ms)"
  by (simp add: analyzePattern_def Let_def split_def calculateRandomness_def entropy_step_def
      GAME_CHOICES_def)

lemma fold_count_same:
  "\<forall>x\<in>set xs. x = c \<Longrightarrow>
   fold (\<lambda>move fr. fr(move := fr move + 1)) xs f = f(c := f c + length xs)"
proof (induction xs arbitrary: f)
  case Nil
  show ?case by simp
next
  case (Cons x xs)
  then have x: "x = c" and rest: "\<forall>y\<in>set xs. y = c" by simp_all
  show ?case
    using Cons.IH [OF rest, of "f(c := f c + 1)"] by (simp add: x, intro ext, simp)
qed

lemma calculateRandomness_single:
  assumes "0 < totalMoves pattern" "frequencies pattern c = totalMoves pattern"
    and "\<forall>d. d \<noteq> c \<longrightarrow> frequencies pattern d = 0"
  shows "calculateRandomness pattern = 0"
proof -
  from assms have "entropy_step pattern d e = e" for d e
    by (cases "d = c") (simp_all add: entropy_step_def Let_def)
  then have "fold (entropy_step pattern) GAME_CHOICES 0 = 0"
    by (simp add: GAME_CHOICES_def)
  with assms(1) show ?thesis
    by (simp add: calculateRandomness_def Let_def Math_round_def)
qed

text \<open>
  Claim C6. For every history the randomness score of \<open>analyzePattern\<close> lies between 0
  and 100; it is 100 when there are no moves, and 0 when a non-empty history plays one
  symbol only. A symbol of frequency zero adds no term to the entropy, so no logarithm of
  zero is taken.
\<close>

theorem randomnessScore_bounds:
  "0 \<le> randomnessScore (analyzePattern ms) \<and> randomnessScore (analyzePattern ms) \<le> 100
   \<and> (totalMoves pattern = 0 \<longrightarrow> calculateRandomness pattern = 100)
   \<and> (ms = [] \<longrightarrow> randomnessScore (analyzePattern ms) = 100)
   \<and> (ms \<noteq> [] \<and> (\<forall>m\<in>set ms. choice m = c) \<longrightarrow> randomnessScore (analyzePattern ms) = 0)
   \<and> (frequencies pattern c = 0 \<longrightarrow> entropy_step pattern c e = e)"
  (is "?lo \<and> ?hi \<and> ?zero \<and> ?empty \<and> ?same \<and> ?skip")
proof -
  let ?P = "analyzePattern ms"
  have sum: "frequencies ?P rock + frequencies ?P paper + frequencies ?P scissors = totalMoves ?P"
    using fold_count_sum [of "map choice ms" "\<lambda>_. 0"]
    by (simp add: totalMoves_analyzePattern frequencies_analyzePattern calculateFrequencies_def)
  from calculateRandomness_range [OF sum] have "?lo \<and> ?hi"
    by (simp add: randomnessScore_analyzePattern)
  moreover have ?zero
    by (simp add: calculateRandomness_def)
  moreover have ?empty
    by (simp add: randomnessScore_analyzePattern calculateRandomness_def totalMoves_analyzePattern)
  moreover have ?same
  proof
    assume a: "ms \<noteq> [] \<and> (\<forall>m\<in>set ms. choice m = c)"
    then have "\<forall>x\<in>set (map choice ms). x = c" by simp
    from fold_count_same [OF this, of "\<lambda>_. 0"]
    have fr: "frequencies ?P = (\<lambda>_. 0)(c := length ms)"
      by (simp add: frequencies_analyzePattern calculateFrequencies_def)
    from a have "0 < totalMoves ?P" by (simp add: totalMoves_analyzePattern)
    moreover have "frequencies ?P c = totalMoves ?P"
      by (simp add: fr totalMoves_analyzePattern)
    moreover have "\<forall>d. d \<noteq> c \<longrightarrow> frequencies ?P d = 0" by (simp add: fr)
    ultimately have "calculateRandomness ?P = 0" by (rule calculateRandomness_single)
    then show "randomnessScore ?P = 0" by (simp add: randomnessScore_analyzePattern)
  qed
  moreover have ?skip
    by (simp add: entropy_step_def Let_def)
  ultimately show ?thesis by blast
qed


theorem randomnessScore_bounds_witness:
  "randomnessScore (analyzePattern []) = 100
   \<and> totalMoves (analyzePattern []) = 0 \<and> calculateRandomness (analyzePattern []) = 100
   \<and> [example_move paper, example_move paper] \<noteq> []
   \<and> choice (example_move paper) = paper
   \<and> randomnessScore (analyzePattern [example_move paper, example_move paper]) = 0
   \<and> frequencies example_repeat paper = 0 \<and> entropy_step example_repeat paper 5 = 5"
proof -
  have h1: "totalMoves (analyzePattern []) = 0" by (simp add: totalMoves_analyzePattern)
  have h2: "[example_move paper, example_move paper] \<noteq> []
      \<and> (\<forall>m\<in>set [example_move paper, example_move paper]. choice m = paper)"
    by (simp add: example_move_def)
  have h3: "frequencies example_repeat paper = 0" by (simp add: example_repeat_def)
  have "randomnessScore (analyzePattern []) = 100 \<and> calculateRandomness (analyzePattern []) = 100"
    using h1 randomnessScore_bounds [where ms = "[]" and pattern = "analyzePattern []"] by blast
  moreover have "randomnessScore (analyzePattern [example_move paper, example_move paper]) = 0"
    using h2 randomnessScore_bounds [where ms = "[example_move paper, example_move paper]"
        and c = paper]
    by blast
  moreover have "entropy_step example_repeat paper 5 = 5"
    using h3 randomnessScore_bounds [where pattern = example_repeat and c = paper and e = 5]
    by blast
  ultimately show ?thesis using h1 h2 h3 by simp
qed

section \<open>The rotating history\<close>

lemma rotation_history_fields:
  assumes "map choice ms = [rock, paper, scissors, rock, paper, scissors]"
  shows "totalMoves (analyzePattern ms) = 6"
    and "lastMoves (analyzePattern ms) = [rock, paper, scissors, rock, paper, scissors]"
    and "frequencies (analyzePattern ms) rock = 2"
    and "frequencies (analyzePattern ms) paper = 2"
    and "frequencies (analyzePattern ms) scissors = 2"
    and "transitions (analyzePattern ms) scissors rock = 1"
    and "transitions (analyzePattern ms) scissors paper = 0"
    and "transitions (analyzePattern ms) scissors scissors = 0"
proof -
  have "length (map choice ms) = 6" by (simp only: assms) simp
  then show "totalMoves (analyzePattern ms) = 6"
    by (simp add: totalMoves_analyzePattern)
  show "lastMoves (analyzePattern ms) = [rock, paper, scissors, rock, paper, scissors]"
    by (simp add: analyzePattern_def Let_def split_def assms slice_last_def)
  show "frequencies (analyzePattern ms) rock = 2" "frequencies (analyzePattern ms) paper = 2"
      "frequencies (analyzePattern ms) scissors = 2"
    by (simp_all add: frequencies_analyzePattern assms calculateFrequencies_def)
  show "transitions (analyzePattern ms) scissors rock = 1"
      "transitions (analyzePattern ms) scissors paper = 0"
      "transitions (analyzePattern ms) scissors scissors = 0"
    by (simp_all add: analyzePattern_def Let_def split_def assms calculateTransitions_def)
qed

lemma rotation_history_randomness:
  assumes "map choice ms = [rock, paper, scissors, rock, paper, scissors]"
  shows "randomnessScore (analyzePattern ms) = 100"
proof -
  note f = rotation_history_fields [OF assms]
  have third: "log 2 (1 / 3 :: real) = - log 2 3"
    by (simp add: log_divide)
  have "fold (entropy_step (analyzePattern ms)) GAME_CHOICES 0 = log 2 3"
    by (simp add: fold_entropy f third)
  moreover have "0 < log 2 (3 :: real)" by simp
  then have "log 2 (3 :: real) \<noteq> 0" by linarith
  ultimately show ?thesis
    by (simp add: randomnessScore_analyzePattern calculateRandomness_def Let_def f Math_round_def)
qed


lemma rotation_history_predictions:
  assumes "map choice ms = [rock, paper, scissors, rock, paper, scissors]"
  shows "predictions (analyzePattern ms) rnd =
     [\<lparr>choice_c = rock, score = 0.3, type = ''frequency''\<rparr>,
      \<lparr>choice_c = rock, score = 0.5, type = ''sequential''\<rparr>,
      \<lparr>choice_c = rock, score = 0.4, type = ''meta''\<rparr>,
      \<lparr>choice_c = rock, score = 0.6, type = ''sequential''\<rparr>]"
  by (simp add: strategy_defs rotation_history_fields [OF assms]
      rotation_history_randomness [OF assms])

text \<open>
  Claim C2. For a history whose choices are rock, paper, scissors, rock, paper, scissors,
  the rotation strategy contributes the candidate rock of score 0.6, it is the last of four
  candidates and every other one scores strictly less, and \<open>predictNextMove\<close> returns the
  prediction rock with confidence 60.
\<close>

theorem rotation_history_prediction:
  assumes "map choice ms = [rock, paper, scissors, rock, paper, scissors]"
  shows "rotation_strategy (analyzePattern ms) =
           [\<lparr>choice_c = rock, score = 0.6, type = ''sequential''\<rparr>]
         \<and> predictions (analyzePattern ms) rnd =
             [\<lparr>choice_c = rock, score = 0.3, type = ''frequency''\<rparr>,
              \<lparr>choice_c = rock, score = 0.5, type = ''sequential''\<rparr>,
              \<lparr>choice_c = rock, score = 0.4, type = ''meta''\<rparr>]
             @ rotation_strategy (analyzePattern ms)
         \<and> (\<forall>p\<in>set (predictions (analyzePattern ms) rnd).
               p \<noteq> \<lparr>choice_c = rock, score = 0.6, type = ''sequential''\<rparr> \<longrightarrow> score p < 0.6)
         \<and> (\<exists>a. predictNextMove (analyzePattern ms) rnd apiKey env gen = Inr a
               \<and> prediction a = rock \<and> confidence a = 60)"
proof -
  note f = rotation_history_fields [OF assms]
  have rot: "rotation_strategy (analyzePattern ms) =
           [\<lparr>choice_c = rock, score = 0.6, type = ''sequential''\<rparr>]"
    by (simp add: rotation_strategy_def slice_last_def f)
  note ps = rotation_history_predictions [OF assms, of rnd]
  have best: "choose_best (predictions (analyzePattern ms) rnd) =
      \<lparr>choice_c = rock, score = 0.6, type = ''sequential''\<rparr>"
    by (simp add: ps choose_best_def)
  have "predictNextMove (analyzePattern ms) rnd apiKey env gen =
      Inr \<lparr>prediction = rock, confidence = 60,
           reasoning = rationale (analyzePattern ms)
             \<lparr>choice_c = rock, score = 0.6, type = ''sequential''\<rparr> scissors apiKey env gen,
           patternType = ''sequential'', suggestion = None\<rparr>"
    by (simp add: predictNextMove_def Let_def f best confidence_of_def Math_round_def)
  then have "\<exists>a. predictNextMove (analyzePattern ms) rnd apiKey env gen = Inr a
               \<and> prediction a = rock \<and> confidence a = 60"
    by simp
  moreover have "\<forall>p\<in>set (predictions (analyzePattern ms) rnd).
               p \<noteq> \<lparr>choice_c = rock, score = 0.6, type = ''sequential''\<rparr> \<longrightarrow> score p < 0.6"
    by (simp add: ps)
  ultimately show ?thesis using rot ps by simp
qed

theorem rotation_history_prediction_witness:
  "map choice (map example_move [rock, paper, scissors, rock, paper, scissors])
     = [rock, paper, scissors, rock, paper, scissors]
   \<and> rotation_strategy (analyzePattern (map example_move [rock, paper, scissors, rock, paper, scissors]))
       = [\<lparr>choice_c = rock, score = 0.6, type = ''sequential''\<rparr>]
   \<and> (\<exists>a. predictNextMove
            (analyzePattern (map example_move [rock, paper, scissors, rock, paper, scissors]))
            (1 / 4) None None (\<lambda>_ _. Inl TypeError) = Inr a
          \<and> prediction a = rock \<and> confidence a = 60)"
proof -
  have h: "map choice (map example_move [rock, paper, scissors, rock, paper, scissors])
     = [rock, paper, scissors, rock, paper, scissors]"
    by (simp add: example_move_def)
  from rotation_history_prediction [OF h, of "1 / 4" None None "\<lambda>_ _. Inl TypeError"] h
  show ?thesis by blast
qed

end
